theory Spec2Isabelle
  imports Complex_Main "HOL-Library.Sublist"
begin


section \<open>Time\<close>

text \<open>
  A \<^verbatim>\<open>time.Time\<close> is modelled by its offset from the Unix epoch in nanoseconds, an
  unbounded integer; a \<^verbatim>\<open>time.Duration\<close> is a number of nanoseconds.  Every
  \<^verbatim>\<open>time.Now()\<close> of the source is an explicit clock reading handed to the model.
\<close>

type_synonym time = int

definition Second :: int where
  "Second = 1000000000"

definition Minute :: int where
  "Minute = 60 * Second"

definition Add :: "time \<Rightarrow> int \<Rightarrow> time" where
  "Add t d = t + d"

definition After :: "time \<Rightarrow> time \<Rightarrow> bool" where
  "After t u \<longleftrightarrow> u < t"

definition Unix :: "time \<Rightarrow> int" where
  "Unix t = t div Second"


section \<open>The Go library functions the program calls\<close>

text \<open>
  A Go \<^verbatim>\<open>string\<close> is a sequence of bytes, here a \<^typ>\<open>string\<close> (a list of
  8-bit characters).  A Go \<^verbatim>\<open>int\<close> is modelled by \<^typ>\<open>int\<close>: the program
  compares and subtracts lengths and quotas, far from the 64-bit bounds.
\<close>

subsection \<open>strings.Split and strings.TrimSpace\<close>

text \<open>
  \<^verbatim>\<open>strings.Split(s, sep)\<close> for a separator of one byte, which is how the program
  calls it (\<^verbatim>\<open>","\<close> and \<^verbatim>\<open>":"\<close>): the pieces of \<open>s\<close> between the separators.
  The result is never empty, so indexing it at 0 cannot panic.
\<close>

fun Split :: "string \<Rightarrow> char \<Rightarrow> string list" where
  "Split [] sep = [[]]"
| "Split (c # cs) sep =
     (if c = sep then [] # Split cs sep
      else (case Split cs sep of
              [] \<Rightarrow> [[c]]
            | piece # pieces \<Rightarrow> (c # piece) # pieces))"

text \<open>
  The UTF-8 encodings of the code points for which \<^verbatim>\<open>unicode.IsSpace\<close> holds:
  U+0009 to U+000D, U+0020, U+0085, U+00A0, U+1680, U+2000 to U+200A, U+2028, U+2029,
  U+202F, U+205F and U+3000.
\<close>

definition spaceRunes :: "string list" where
  "spaceRunes =
     [[CHR 0x09], [CHR 0x0A], [CHR 0x0B], [CHR 0x0C], [CHR 0x0D], [CHR 0x20],
      [CHR 0xC2, CHR 0x85], [CHR 0xC2, CHR 0xA0],
      [CHR 0xE1, CHR 0x9A, CHR 0x80],
      [CHR 0xE2, CHR 0x80, CHR 0x80], [CHR 0xE2, CHR 0x80, CHR 0x81],
      [CHR 0xE2, CHR 0x80, CHR 0x82], [CHR 0xE2, CHR 0x80, CHR 0x83],
      [CHR 0xE2, CHR 0x80, CHR 0x84], [CHR 0xE2, CHR 0x80, CHR 0x85],
      [CHR 0xE2, CHR 0x80, CHR 0x86], [CHR 0xE2, CHR 0x80, CHR 0x87],
      [CHR 0xE2, CHR 0x80, CHR 0x88], [CHR 0xE2, CHR 0x80, CHR 0x89],
      [CHR 0xE2, CHR 0x80, CHR 0x8A],
      [CHR 0xE2, CHR 0x80, CHR 0xA8], [CHR 0xE2, CHR 0x80, CHR 0xA9],
      [CHR 0xE2, CHR 0x80, CHR 0xAF],
      [CHR 0xE2, CHR 0x81, CHR 0x9F],
      [CHR 0xE3, CHR 0x80, CHR 0x80]]"

text \<open>
  Dropping, as long as there is one, a leading byte sequence of the list \<open>seqs\<close>.
  With \<^const>\<open>spaceRunes\<close> this is \<^verbatim>\<open>strings.TrimLeftFunc(s, unicode.IsSpace)\<close>: a
  rune decoded at the front of \<open>s\<close> is a space exactly when \<open>s\<close> starts with the
  encoding of one (an invalid or truncated encoding decodes to U+FFFD, which is none).
\<close>

function trimLeading :: "string list \<Rightarrow> string \<Rightarrow> string" where
  "trimLeading seqs s =
     (case find (\<lambda>p. p \<noteq> [] \<and> prefix p s) seqs of
        None \<Rightarrow> s
      | Some p \<Rightarrow> trimLeading seqs (drop (length p) s))"
  by pat_completeness auto
termination
proof (relation "measure (\<lambda>(seqs, s). length s)")
  show "wf (measure (\<lambda>(seqs, s). length s))"
    by simp
next
  fix seqs :: "string list" and s p :: string
  assume "find (\<lambda>p. p \<noteq> [] \<and> prefix p s) seqs = Some p"
  then have "p \<noteq> []" and "prefix p s"
    by (auto simp: find_Some_iff)
  then have "s \<noteq> []"
    by auto
  with \<open>p \<noteq> []\<close> show "((seqs, drop (length p) s), (seqs, s)) \<in> measure (\<lambda>(seqs, s). length s)"
    by simp
qed

definition TrimLeftSpace :: "string \<Rightarrow> string" where
  "TrimLeftSpace s = trimLeading spaceRunes s"

definition TrimRightSpace :: "string \<Rightarrow> string" where
  "TrimRightSpace s = rev (trimLeading (map rev spaceRunes) (rev s))"

text \<open>\<^verbatim>\<open>strings.TrimSpace(s)\<close>: \<open>s\<close> without its leading and trailing white space.\<close>

definition TrimSpace :: "string \<Rightarrow> string" where
  "TrimSpace s = TrimRightSpace (TrimLeftSpace s)"

subsection \<open>strconv.Itoa and strconv.FormatInt in base 10\<close>

function digits :: "int \<Rightarrow> string" where
  "digits n =
     (if n < 10 then [''0123456789'' ! nat n]
      else digits (n div 10) @ [''0123456789'' ! nat (n mod 10)])"
  by pat_completeness auto
termination
  by (relation "measure nat") auto

definition Itoa :: "int \<Rightarrow> string" where
  "Itoa i = (if i < 0 then CHR ''-'' # digits (- i) else digits i)"

definition FormatInt10 :: "int \<Rightarrow> string" where
  "FormatInt10 i = Itoa i"

subsection \<open>net/http: headers and requests\<close>

text \<open>
  \<^verbatim>\<open>textproto.CanonicalMIMEHeaderKey\<close>: a key of header-field bytes only gets its first
  letter and every letter after a hyphen in upper case and the others in lower case;
  any other key is returned as it is.
\<close>

definition validHeaderFieldByte :: "char \<Rightarrow> bool" where
  "validHeaderFieldByte c \<longleftrightarrow>
     c \<in> set (''!#$%&*+-.^_|~0123456789'' @ [CHR 0x27, CHR 0x60] @
              ''abcdefghijklmnopqrstuvwxyzABCDEFGHIJKLMNOPQRSTUVWXYZ'')"

definition toUpperASCII :: "char \<Rightarrow> char" where
  "toUpperASCII c =
     (case map_of (zip ''abcdefghijklmnopqrstuvwxyz'' ''ABCDEFGHIJKLMNOPQRSTUVWXYZ'') c of
        None \<Rightarrow> c
      | Some u \<Rightarrow> u)"

definition toLowerASCII :: "char \<Rightarrow> char" where
  "toLowerASCII c =
     (case map_of (zip ''ABCDEFGHIJKLMNOPQRSTUVWXYZ'' ''abcdefghijklmnopqrstuvwxyz'') c of
        None \<Rightarrow> c
      | Some l \<Rightarrow> l)"

fun canonicalBytes :: "bool \<Rightarrow> string \<Rightarrow> string" where
  "canonicalBytes upper [] = []"
| "canonicalBytes upper (c # cs) =
     (let c' = (if upper then toUpperASCII c else toLowerASCII c)
      in c' # canonicalBytes (c' = CHR ''-'') cs)"

definition CanonicalMIMEHeaderKey :: "string \<Rightarrow> string" where
  "CanonicalMIMEHeaderKey s =
     (if list_all validHeaderFieldByte s then canonicalBytes True s else s)"

text \<open>
  \<^verbatim>\<open>type Header map[string][]string\<close>, with \<^verbatim>\<open>Get\<close> (the first value under the
  canonical key, or the empty string) and \<^verbatim>\<open>Set\<close> (the canonical key gets the one
  value).
\<close>

type_synonym Header = "string \<rightharpoonup> string list"

definition Header_Get :: "Header \<Rightarrow> string \<Rightarrow> string" where
  "Header_Get h key =
     (case h (CanonicalMIMEHeaderKey key) of
        None \<Rightarrow> []
      | Some [] \<Rightarrow> []
      | Some (v # vs) \<Rightarrow> v)"

definition Header_Set :: "Header \<Rightarrow> string \<Rightarrow> string \<Rightarrow> Header" where
  "Header_Set h key v = h(CanonicalMIMEHeaderKey key \<mapsto> [v])"

text \<open>The fields of \<^verbatim>\<open>*http.Request\<close> that the program reads.\<close>

record Request =
  Method :: string
  URL_Path :: string
  Header :: Header
  RemoteAddr :: string
  Body :: string

section \<open>Package models\<close>

text \<open>
  The request and response structs.  \<^verbatim>\<open>CompleteRequest\<close> and \<^verbatim>\<open>GenerateRequest\<close>
  have the same fields, as have the three response structs; the optional fields
  \<^verbatim>\<open>max_tokens\<close>, \<^verbatim>\<open>temperature\<close> and \<^verbatim>\<open>user_id\<close> are common to all requests.
  A field absent from the JSON body has Go's zero value after decoding.  A
  \<^verbatim>\<open>float64\<close> is modelled by the real number it denotes: the program compares
  temperatures with 0 and stores the constant 0.7, and computes nothing with them.
\<close>

record ChatMessage =
  Role :: string
  Content :: string

record RequestOptions =
  MaxTokens :: int
  Temperature :: real
  UserID :: string

record PromptRequest = RequestOptions +
  Prompt :: string

type_synonym CompleteRequest = PromptRequest

type_synonym GenerateRequest = PromptRequest

record ChatCompletionRequest = RequestOptions +
  Messages :: "ChatMessage list"

record ErrorResponse =
  Error :: string
  Code :: int
  Message :: string

record HealthResponse =
  Status :: string
  Health_Timestamp :: time
  Version :: string

record TextResponse =
  Response :: string
  Response_UserID :: string
  Timestamp :: time
  Model :: string

type_synonym ChatCompletionResponse = TextResponse

type_synonym CompleteResponse = TextResponse

type_synonym GenerateResponse = TextResponse

section \<open>The response writer of net/http\<close>

text \<open>
  What the program writes to a response: plain text, or the JSON encoding of one of
  its values, kept as the value that \<^verbatim>\<open>json.NewEncoder(w).Encode\<close> was given.
\<close>

datatype json =
    JNull
  | JBool bool
  | JNumber real
  | JString string
  | JArray "json list"
  | JObject "(string \<times> json) list"

datatype written =
    Text string
  | ErrorJSON ErrorResponse
  | HealthJSON HealthResponse
  | TextJSON TextResponse
  | ObjectJSON "string \<rightharpoonup> json"

text \<open>
  An \<^verbatim>\<open>http.ResponseWriter\<close>: the header map \<^verbatim>\<open>w.Header()\<close>, the status code once
  the header has been written, and what was written to the body, in order.
  \<^verbatim>\<open>WriteHeader\<close> takes effect once; a \<^verbatim>\<open>Write\<close> before it writes the header with
  status 200.
\<close>

record ResponseWriter =
  wHeader :: Header
  wStatus :: "int option"
  wBody :: "written list"

definition newResponseWriter :: ResponseWriter where
  "newResponseWriter = \<lparr>wHeader = Map.empty, wStatus = None, wBody = []\<rparr>"

definition SetHeader :: "ResponseWriter \<Rightarrow> string \<Rightarrow> string \<Rightarrow> ResponseWriter" where
  "SetHeader w key v = w\<lparr>wHeader := Header_Set (wHeader w) key v\<rparr>"

definition WriteHeader :: "ResponseWriter \<Rightarrow> int \<Rightarrow> ResponseWriter" where
  "WriteHeader w code = (case wStatus w of None \<Rightarrow> w\<lparr>wStatus := Some code\<rparr> | Some c \<Rightarrow> w)"

definition Write :: "ResponseWriter \<Rightarrow> written \<Rightarrow> ResponseWriter" where
  "Write w d = (let w' = WriteHeader w 200 in w'\<lparr>wBody := wBody w' @ [d]\<rparr>)"

text \<open>
  \<^verbatim>\<open>http.Error(w, error, code)\<close>, as in Go 1.21, which the repository builds with:
  a plain-text content type, the \<^verbatim>\<open>nosniff\<close> option, the status code, and the
  message followed by a newline.
\<close>

definition http_Error :: "ResponseWriter \<Rightarrow> string \<Rightarrow> int \<Rightarrow> ResponseWriter" where
  "http_Error w msg code =
     (let w1 = SetHeader w ''Content-Type'' ''text/plain; charset=utf-8'';
          w2 = SetHeader w1 ''X-Content-Type-Options'' ''nosniff'';
          w3 = WriteHeader w2 code
      in Write w3 (Text (msg @ [CHR 0x0A])))"

text \<open>\<^verbatim>\<open>http.StatusText\<close>, for the codes this program passes or sets.\<close>

definition StatusText :: "int \<Rightarrow> string" where
  "StatusText code =
     (if code = 200 then ''OK''
      else if code = 400 then ''Bad Request''
      else if code = 404 then ''Not Found''
      else if code = 405 then ''Method Not Allowed''
      else if code = 429 then ''Too Many Requests''
      else if code = 500 then ''Internal Server Error''
      else if code = 503 then ''Service Unavailable''
      else [])"


section \<open>The rate limiter (package main)\<close>

text \<open>
  \<^verbatim>\<open>type ClientLimiter struct { requests []time.Time; mutex sync.Mutex }\<close> and
  \<^verbatim>\<open>type RateLimiter struct { clients map[string]*ClientLimiter; mutex sync.RWMutex }\<close>.
  The global \<^verbatim>\<open>rateLimiter\<close> is passed in and returned.  The mutexes are not part of
  the state: \<^verbatim>\<open>isAllowed\<close> holds the limiter's lock from its first to its last
  statement, so one call is one atomic step of the model.
\<close>

record ClientLimiter =
  requests :: "time list"

record RateLimiter =
  clients :: "string \<rightharpoonup> ClientLimiter"

definition newRateLimiter :: RateLimiter where
  "newRateLimiter = \<lparr>clients = Map.empty\<rparr>"

text \<open>The timestamps recorded for an identity; none when the identity has no entry.\<close>

definition window :: "RateLimiter \<Rightarrow> string \<Rightarrow> time list" where
  "window rl clientIP = (case clients rl clientIP of None \<Rightarrow> [] | Some c \<Rightarrow> requests c)"

text \<open>
  \<^verbatim>\<open>func isAllowed(clientIP string, limit int) bool\<close>: get or create the client's
  limiter, keep the requests that are \<^verbatim>\<open>After(now.Add(-time.Minute))\<close>, refuse when
  \<^verbatim>\<open>len(client.requests) >= limit\<close>, otherwise append \<^verbatim>\<open>now\<close>.
\<close>

definition isAllowed :: "RateLimiter \<Rightarrow> time \<Rightarrow> string \<Rightarrow> int \<Rightarrow> bool \<times> RateLimiter" where
  "isAllowed rl now clientIP limit =
     (let client = (case clients rl clientIP of
                      None \<Rightarrow> \<lparr>requests = []\<rparr>
                    | Some c \<Rightarrow> c);
          oneMinuteAgo = Add now (- Minute);
          validRequests = filter (\<lambda>reqTime. After reqTime oneMinuteAgo) (requests client)
      in if int (length validRequests) \<ge> limit
         then (False, rl\<lparr>clients := (clients rl)(clientIP \<mapsto> client\<lparr>requests := validRequests\<rparr>)\<rparr>)
         else (True, rl\<lparr>clients := (clients rl)(clientIP \<mapsto> client\<lparr>requests := validRequests @ [now]\<rparr>)\<rparr>))"

text \<open>
  A run of successive \<^verbatim>\<open>isAllowed\<close> calls against one quota: each call is an identity
  with the clock reading of that call.  The result is the list of decisions and the
  limiter after the last call.
\<close>

fun replay :: "RateLimiter \<Rightarrow> int \<Rightarrow> (string \<times> time) list \<Rightarrow> bool list \<times> RateLimiter" where
  "replay rl limit [] = ([], rl)"
| "replay rl limit ((clientIP, now) # calls) =
     (let (ok, rl') = isAllowed rl now clientIP limit;
          (oks, rl'') = replay rl' limit calls
      in (ok # oks, rl''))"


text \<open>
  \<^verbatim>\<open>func getRemainingRequests(clientIP string, limit int) int\<close>: \<open>limit - 1\<close> for an
  identity with no entry, otherwise the limit minus the number of requests of the last
  minute, and 0 when that is negative.  The limiter is only read.
\<close>

definition getRemainingRequests :: "RateLimiter \<Rightarrow> time \<Rightarrow> string \<Rightarrow> int \<Rightarrow> int" where
  "getRemainingRequests rl now clientIP limit =
     (case clients rl clientIP of
        None \<Rightarrow> limit - 1
      | Some client \<Rightarrow>
          (let oneMinuteAgo = Add now (- Minute);
               validCount = int (length (filter (\<lambda>reqTime. After reqTime oneMinuteAgo) (requests client)));
               remaining = limit - validCount
           in if remaining < 0 then 0 else remaining))"

text \<open>
  \<^verbatim>\<open>func getClientIP(r *http.Request) string\<close>: the first piece of
  \<^verbatim>\<open>X-Forwarded-For\<close> without surrounding white space when that header is not empty,
  else \<^verbatim>\<open>X-Real-IP\<close> when it is not empty, else the first piece of
  \<^verbatim>\<open>strings.Split(r.RemoteAddr, ":")\<close>.
\<close>

definition getClientIP :: "Request \<Rightarrow> string" where
  "getClientIP r =
     (let xff = Header_Get (Header r) ''X-Forwarded-For''
      in if xff \<noteq> [] then TrimSpace (hd (Split xff (CHR '','')))
         else (let xri = Header_Get (Header r) ''X-Real-IP''
               in if xri \<noteq> [] then xri
                  else hd (Split (RemoteAddr r) (CHR '':''))))"

text \<open>
  One cycle of \<^verbatim>\<open>cleanupOldClients\<close>, the body of \<^verbatim>\<open>for range ticker.C\<close>: with the
  limiter locked, range over \<^verbatim>\<open>rateLimiter.clients\<close> and delete, inside the loop,
  every entry with no request after \<^verbatim>\<open>now.Add(-5 * time.Minute)\<close>.  Go fixes no order
  for a range over a map, so the keys come in the order \<open>keys\<close> in which the range
  produces them; an entry that is gone when its turn comes is not produced.
  \<open>cleanupLoop\<close> is the state after the loop has visited \<open>keys\<close>.
\<close>

definition hasRecentRequests :: "time \<Rightarrow> ClientLimiter \<Rightarrow> bool" where
  "hasRecentRequests fiveMinutesAgo client =
     list_ex (\<lambda>reqTime. After reqTime fiveMinutesAgo) (requests client)"

fun cleanupLoop :: "RateLimiter \<Rightarrow> time \<Rightarrow> string list \<Rightarrow> RateLimiter" where
  "cleanupLoop rl fiveMinutesAgo [] = rl"
| "cleanupLoop rl fiveMinutesAgo (clientIP # keys) =
     (case clients rl clientIP of
        None \<Rightarrow> cleanupLoop rl fiveMinutesAgo keys
      | Some client \<Rightarrow>
          (if \<not> hasRecentRequests fiveMinutesAgo client
           then cleanupLoop (rl\<lparr>clients := (clients rl)(clientIP := None)\<rparr>) fiveMinutesAgo keys
           else cleanupLoop rl fiveMinutesAgo keys))"

definition cleanupCycle :: "RateLimiter \<Rightarrow> time \<Rightarrow> string list \<Rightarrow> RateLimiter" where
  "cleanupCycle rl now keys = cleanupLoop rl (Add now (- 5 * Minute)) keys"

text \<open>
  Whether the store is still as it was before the cycle at every point of the
  iteration short of its end: after each proper prefix of the keys, every key has the
  entry it had.  This is what removal after the iteration would give.
\<close>

definition removalDeferred :: "RateLimiter \<Rightarrow> time \<Rightarrow> string list \<Rightarrow> bool" where
  "removalDeferred rl now keys \<longleftrightarrow>
     list_all (\<lambda>n. list_all (\<lambda>k. clients (cleanupCycle rl now (take n keys)) k = clients rl k) keys)
       [0..<length keys]"

subsection \<open>The middleware\<close>

text \<open>
  A handler works on the response writer and may change the limiter (the rate-limit
  stage does).  The route handlers live in another package and cannot reach the
  unexported \<^verbatim>\<open>rateLimiter\<close>; \<open>plainHandler\<close> lifts such a handler.
\<close>

type_synonym HandlerFunc = "RateLimiter \<Rightarrow> ResponseWriter \<Rightarrow> Request \<Rightarrow> RateLimiter \<times> ResponseWriter"

definition plainHandler :: "(ResponseWriter \<Rightarrow> Request \<Rightarrow> ResponseWriter) \<Rightarrow> HandlerFunc" where
  "plainHandler h rl w r = (rl, h w r)"

text \<open>
  The clock readings of one pass through \<^verbatim>\<open>rateLimitMiddleware\<close>, in program order:
  the \<^verbatim>\<open>time.Now()\<close> inside \<^verbatim>\<open>isAllowed\<close>, the one inside
  \<^verbatim>\<open>getRemainingRequests\<close> (not reached on a denial), and the one of the
  \<^verbatim>\<open>X-RateLimit-Reset\<close> header.  One request is served at a time: nothing else
  changes the limiter between \<^verbatim>\<open>isAllowed\<close> and \<^verbatim>\<open>getRemainingRequests\<close>.
\<close>

record Readings =
  atCheck :: time
  atRemaining :: time
  atReset :: time

definition rateLimitExceededBody :: string where
  "rateLimitExceededBody =
     ''{\"error\":\"Rate limit exceeded\",\"message\":\"Too many requests. Please try again later.\",\"code\":429}''"

definition rateLimitMiddleware :: "int \<Rightarrow> Readings \<Rightarrow> HandlerFunc \<Rightarrow> HandlerFunc" where
  "rateLimitMiddleware requestsPerMinute clock next rl w r =
     (let clientIP = getClientIP r;
          (allowed, rl1) = isAllowed rl (atCheck clock) clientIP requestsPerMinute
      in if \<not> allowed
         then (let w1 = SetHeader w ''X-RateLimit-Limit'' (Itoa requestsPerMinute);
                   w2 = SetHeader w1 ''X-RateLimit-Remaining'' ''0'';
                   w3 = SetHeader w2 ''X-RateLimit-Reset''
                          (FormatInt10 (Unix (Add (atReset clock) Minute)));
                   w4 = SetHeader w3 ''Access-Control-Allow-Origin'' ''*'';
                   w5 = SetHeader w4 ''Access-Control-Allow-Methods'' ''GET, POST, OPTIONS'';
                   w6 = SetHeader w5 ''Access-Control-Allow-Headers'' ''Content-Type''
               in (rl1, http_Error w6 rateLimitExceededBody 429))
         else (let remaining = getRemainingRequests rl1 (atRemaining clock) clientIP requestsPerMinute;
                   w1 = SetHeader w ''X-RateLimit-Limit'' (Itoa requestsPerMinute);
                   w2 = SetHeader w1 ''X-RateLimit-Remaining'' (Itoa remaining);
                   w3 = SetHeader w2 ''X-RateLimit-Reset''
                          (FormatInt10 (Unix (Add (atReset clock) Minute)))
               in next rl1 w3 r))"

definition corsMiddleware :: "HandlerFunc \<Rightarrow> HandlerFunc" where
  "corsMiddleware next rl w r =
     (let w1 = SetHeader w ''Access-Control-Allow-Origin'' ''*'';
          w2 = SetHeader w1 ''Access-Control-Allow-Methods'' ''GET, POST, OPTIONS'';
          w3 = SetHeader w2 ''Access-Control-Allow-Headers'' ''Content-Type''
      in if Method r = ''OPTIONS'' then (rl, WriteHeader w3 200)
         else next rl w3 r)"

definition protectedHandler :: "HandlerFunc \<Rightarrow> int \<Rightarrow> Readings \<Rightarrow> HandlerFunc" where
  "protectedHandler handler rateLimit clock =
     corsMiddleware (rateLimitMiddleware rateLimit clock handler)"


section \<open>Package services\<close>

record AIService =
  llmBaseURL :: string
  model :: string

definition NewAIService :: AIService where
  "NewAIService = \<lparr>llmBaseURL = ''http://llm-server:8082'', model = ''distilgpt2''\<rparr>"

definition GetModel :: "AIService \<Rightarrow> string" where
  "GetModel s = model s"

record LLMRequest =
  LLM_Prompt :: string
  MaxLength :: int
  LLM_Temperature :: real
  TopP :: real
  DoSample :: bool

record LLMResponse =
  GeneratedText :: string
  Echo_Prompt :: string

text \<open>
  The request of \<^verbatim>\<open>GetChatCompletion\<close>, a map with the keys \<^verbatim>\<open>messages\<close>,
  \<^verbatim>\<open>max_tokens\<close> and \<^verbatim>\<open>temperature\<close>.
\<close>

record ChatPayload =
  chat_messages :: "ChatMessage list"
  chat_max_tokens :: int
  chat_temperature :: real

text \<open>The value a backend request carries as its JSON body.\<close>

datatype payload =
    LLMRequestJSON LLMRequest
  | ChatRequestJSON ChatPayload

text \<open>An outbound HTTP request to the LLM server; a GET has no body.\<close>

record BackendCall =
  callMethod :: string
  callURL :: string
  callHeader :: Header
  callBody :: "payload option"

text \<open>
  What \<^verbatim>\<open>s.client.Do(req)\<close> returned when it returned no error: the status code,
  and the body as \<^verbatim>\<open>io.ReadAll(resp.Body)\<close> gives it, or the error of reading it.
\<close>

record BackendResponse =
  StatusCode :: int
  ReadAll :: "string + string"

text \<open>
  Everything outside the program that a request depends on.  An error is the text of
  its message.  \<^verbatim>\<open>clientDo\<close> is the HTTP client with its 30 second timeout: a
  transport failure or a timeout is \<open>Inl\<close>, any response \<open>Inr\<close>.  The JSON codec is
  \<^verbatim>\<open>encoding/json\<close>; the decoders of request bodies give \<open>None\<close> on an error.
\<close>

record Env =
  timeNow :: time
  decodeChatCompletionRequest :: "string \<Rightarrow> ChatCompletionRequest option"
  decodeCompleteRequest :: "string \<Rightarrow> CompleteRequest option"
  decodeGenerateRequest :: "string \<Rightarrow> GenerateRequest option"
  marshalError :: "payload \<Rightarrow> string option"
  newRequestError :: "string \<Rightarrow> string \<Rightarrow> string option"
  clientDo :: "BackendCall \<Rightarrow> string + BackendResponse"
  unmarshalLLMResponse :: "string \<Rightarrow> string + LLMResponse"
  unmarshalObject :: "string \<Rightarrow> string + (string \<rightharpoonup> json)"

definition postJSON :: "string \<Rightarrow> payload \<Rightarrow> BackendCall" where
  "postJSON url p =
     \<lparr>callMethod = ''POST'', callURL = url,
      callHeader = Header_Set Map.empty ''Content-Type'' ''application/json'',
      callBody = Some p\<rparr>"

text \<open>
  Every function of the service returns the backend requests it sent, in order, beside
  its Go result \<^verbatim>\<open>(value, error)\<close>, which is \<open>Inr value\<close> or \<open>Inl message\<close>.  The
  \<^verbatim>\<open>log.Printf\<close> lines write to the server's log only and are left out.
\<close>

definition callLLMEndpoint ::
  "Env \<Rightarrow> AIService \<Rightarrow> string \<Rightarrow> LLMRequest \<Rightarrow> BackendCall list \<times> (string + string)" where
  "callLLMEndpoint env s endpoint request =
     (case marshalError env (LLMRequestJSON request) of
        Some err \<Rightarrow> ([], Inl (''failed to marshal request: '' @ err))
      | None \<Rightarrow>
          (let url = llmBaseURL s @ endpoint
           in case newRequestError env ''POST'' url of
                Some err \<Rightarrow> ([], Inl (''failed to create request: '' @ err))
              | None \<Rightarrow>
                  (let req = postJSON url (LLMRequestJSON request)
                   in case clientDo env req of
                        Inl err \<Rightarrow>
                          ([req], Inl (''failed to connect to LLM server at '' @ url @ '': '' @ err))
                      | Inr resp \<Rightarrow>
                          (case ReadAll resp of
                             Inl err \<Rightarrow> ([req], Inl (''failed to read response: '' @ err))
                           | Inr body \<Rightarrow>
                               (if StatusCode resp \<noteq> 200
                                then ([req], Inl (''LLM server responded with status '' @
                                                   Itoa (StatusCode resp) @ '': '' @ body))
                                else (case unmarshalLLMResponse env body of
                                        Inl err \<Rightarrow>
                                          ([req], Inl (''failed to parse LLM response: '' @ err))
                                      | Inr response \<Rightarrow>
                                          (let generatedText = GeneratedText response
                                           in if generatedText = []
                                              then ([req], Inl ''LLM server returned empty generated text'')
                                              else ([req], Inr generatedText))))))))"

definition callLLMEndpointWithJSON ::
  "Env \<Rightarrow> AIService \<Rightarrow> string \<Rightarrow> payload \<Rightarrow> BackendCall list \<times> (string + (string \<rightharpoonup> json))" where
  "callLLMEndpointWithJSON env s endpoint request =
     (case marshalError env request of
        Some err \<Rightarrow> ([], Inl (''failed to marshal request: '' @ err))
      | None \<Rightarrow>
          (let url = llmBaseURL s @ endpoint
           in case newRequestError env ''POST'' url of
                Some err \<Rightarrow> ([], Inl (''failed to create request: '' @ err))
              | None \<Rightarrow>
                  (let req = postJSON url request
                   in case clientDo env req of
                        Inl err \<Rightarrow>
                          ([req], Inl (''failed to connect to LLM server at '' @ url @ '': '' @ err))
                      | Inr resp \<Rightarrow>
                          (case ReadAll resp of
                             Inl err \<Rightarrow> ([req], Inl (''failed to read response: '' @ err))
                           | Inr body \<Rightarrow>
                               (if StatusCode resp \<noteq> 200
                                then ([req], Inl (''LLM server responded with status '' @
                                                   Itoa (StatusCode resp) @ '': '' @ body))
                                else (case unmarshalObject env body of
                                        Inl err \<Rightarrow>
                                          ([req], Inl (''failed to parse LLM response: '' @ err))
                                      | Inr response \<Rightarrow> ([req], Inr response)))))))"

text \<open>A type assertion \<^verbatim>\<open>m[key].(string)\<close> on a decoded JSON object.\<close>

definition stringField :: "(string \<rightharpoonup> json) \<Rightarrow> string \<Rightarrow> string option" where
  "stringField m key = (case m key of Some (JString s) \<Rightarrow> Some s | _ \<Rightarrow> None)"

definition GetChatCompletion ::
  "Env \<Rightarrow> AIService \<Rightarrow> ChatMessage list \<Rightarrow> int \<Rightarrow> real \<Rightarrow> BackendCall list \<times> (string + string)" where
  "GetChatCompletion env s messages maxTokens temperature =
     (if length messages = 0 then ([], Inl ''messages cannot be empty'')
      else (let request = ChatRequestJSON
                  \<lparr>chat_messages = messages, chat_max_tokens = maxTokens,
                   chat_temperature = temperature\<rparr>
            in case callLLMEndpointWithJSON env s ''/chat/completions'' request of
                 (calls, Inl err) \<Rightarrow> (calls, Inl (''chat completion failed: '' @ err))
               | (calls, Inr response) \<Rightarrow>
                   (case stringField response ''content'' of
                      Some content \<Rightarrow> (calls, Inr (TrimSpace content))
                    | None \<Rightarrow>
                        (case stringField response ''generated_text'' of
                           Some generatedText \<Rightarrow> (calls, Inr (TrimSpace generatedText))
                         | None \<Rightarrow>
                             (calls, Inl ''unexpected response format from LLM server'')))))"

definition GetComplete ::
  "Env \<Rightarrow> AIService \<Rightarrow> string \<Rightarrow> int \<Rightarrow> real \<Rightarrow> BackendCall list \<times> (string + string)" where
  "GetComplete env s prompt maxTokens temperature =
     (if prompt = [] then ([], Inl ''prompt cannot be empty'')
      else (let maxTokens = (if maxTokens = 0 then 150 else maxTokens);
                temperature = (if temperature = 0 then 0.7 else temperature);
                request = \<lparr>LLM_Prompt = prompt, MaxLength = maxTokens,
                           LLM_Temperature = temperature,
                           TopP = 0, DoSample = True\<rparr>
            in case marshalError env (LLMRequestJSON request) of
                 Some err \<Rightarrow> ([], Inl (''failed to marshal request: '' @ err))
               | None \<Rightarrow>
                   (let url = llmBaseURL s @ ''/complete''
                    in case newRequestError env ''POST'' url of
                         Some err \<Rightarrow> ([], Inl (''failed to create request: '' @ err))
                       | None \<Rightarrow>
                           (let req = postJSON url (LLMRequestJSON request)
                            in case clientDo env req of
                                 Inl err \<Rightarrow>
                                   ([req], Inl (''failed to connect to LLM server: '' @ err))
                               | Inr resp \<Rightarrow>
                                   (case ReadAll resp of
                                      Inl err \<Rightarrow> ([req], Inl (''failed to read response: '' @ err))
                                    | Inr body \<Rightarrow>
                                        (if StatusCode resp \<noteq> 200
                                         then ([req], Inl (''LLM server responded with status '' @
                                                            Itoa (StatusCode resp) @ '': '' @ body))
                                         else (case unmarshalObject env body of
                                                 Inl err \<Rightarrow>
                                                   ([req], Inl (''failed to parse LLM response: '' @ err))
                                               | Inr response \<Rightarrow>
                                                   (case stringField response ''completion'' of
                                                      Some completion \<Rightarrow>
                                                        (if completion \<noteq> []
                                                         then ([req], Inr completion)
                                                         else ([req], Inl ''LLM server returned empty or invalid completion''))
                                                    | None \<Rightarrow>
                                                        ([req], Inl ''LLM server returned empty or invalid completion'')))))))))"

definition GetGenerate ::
  "Env \<Rightarrow> AIService \<Rightarrow> string \<Rightarrow> int \<Rightarrow> real \<Rightarrow> BackendCall list \<times> (string + string)" where
  "GetGenerate env s prompt maxTokens temperature =
     (if prompt = [] then ([], Inl ''prompt cannot be empty'')
      else (let maxTokens = (if maxTokens = 0 then 150 else maxTokens);
                temperature = (if temperature = 0 then 0.7 else temperature);
                request = \<lparr>LLM_Prompt = prompt, MaxLength = maxTokens,
                           LLM_Temperature = temperature,
                           TopP = 0, DoSample = True\<rparr>
            in case callLLMEndpoint env s ''/generate'' request of
                 (calls, Inl err) \<Rightarrow> (calls, Inl (''generation failed: '' @ err))
               | (calls, Inr response) \<Rightarrow> (calls, Inr response)))"

definition GetModelInfo ::
  "Env \<Rightarrow> AIService \<Rightarrow> BackendCall list \<times> (string + (string \<rightharpoonup> json))" where
  "GetModelInfo env s =
     (let url = llmBaseURL s @ ''/model-info''
      in case newRequestError env ''GET'' url of
           Some err \<Rightarrow> ([], Inl (''failed to create request: '' @ err))
         | None \<Rightarrow>
             (let req = \<lparr>callMethod = ''GET'', callURL = url, callHeader = Map.empty,
                         callBody = None\<rparr>
              in case clientDo env req of
                   Inl err \<Rightarrow> ([req], Inl (''failed to connect to LLM server: '' @ err))
                 | Inr resp \<Rightarrow>
                     (case ReadAll resp of
                        Inl err \<Rightarrow> ([req], Inl (''failed to read response: '' @ err))
                      | Inr body \<Rightarrow>
                          (if StatusCode resp \<noteq> 200
                           then ([req], Inl (''LLM server responded with status '' @
                                              Itoa (StatusCode resp) @ '': '' @ body))
                           else (case unmarshalObject env body of
                                   Inl err \<Rightarrow> ([req], Inl (''failed to parse model info: '' @ err))
                                 | Inr modelInfo \<Rightarrow> ([req], Inr modelInfo))))))"

section \<open>Package handlers\<close>

text \<open>\<^verbatim>\<open>type AIHandler struct { aiService *services.AIService }\<close>\<close>

record AIHandler =
  aiService :: AIService

definition NewAIHandler :: AIHandler where
  "NewAIHandler = \<lparr>aiService = NewAIService\<rparr>"

definition sendErrorResponse :: "ResponseWriter \<Rightarrow> int \<Rightarrow> string \<Rightarrow> ResponseWriter" where
  "sendErrorResponse w statusCode msg =
     (let response = \<lparr>Error = StatusText statusCode, Code = statusCode, Message = msg\<rparr>;
          w1 = SetHeader w ''Content-Type'' ''application/json'';
          w2 = WriteHeader w1 statusCode
      in Write w2 (ErrorJSON response))"

text \<open>
  A handler returns the backend requests it caused and the response writer as it
  leaves it.
\<close>

definition HandleChatCompletion ::
  "Env \<Rightarrow> AIHandler \<Rightarrow> ResponseWriter \<Rightarrow> Request \<Rightarrow> BackendCall list \<times> ResponseWriter" where
  "HandleChatCompletion env h w r =
     (if Method r \<noteq> ''POST'' then ([], sendErrorResponse w 405 ''Method not allowed'')
      else (case decodeChatCompletionRequest env (Body r) of
              None \<Rightarrow> ([], sendErrorResponse w 400 ''Invalid JSON format'')
            | Some req \<Rightarrow>
                (if length (Messages req) = 0
                 then ([], sendErrorResponse w 400 ''Messages cannot be empty'')
                 else (let maxTokens = (if MaxTokens req = 0 then 150 else MaxTokens req);
                           temperature = (if Temperature req = 0 then 0.7 else Temperature req)
                       in case GetChatCompletion env (aiService h) (Messages req) maxTokens temperature of
                            (calls, Inl err) \<Rightarrow>
                              (calls, sendErrorResponse w 500 ''Failed to get chat completion'')
                          | (calls, Inr aiResponse) \<Rightarrow>
                              (let response = \<lparr>Response = aiResponse, Response_UserID = UserID req,
                                                Timestamp = timeNow env,
                                                Model = GetModel (aiService h)\<rparr>;
                                   w1 = SetHeader w ''Content-Type'' ''application/json'';
                                   w2 = WriteHeader w1 200
                               in (calls, Write w2 (TextJSON response)))))))"

definition HandleComplete ::
  "Env \<Rightarrow> AIHandler \<Rightarrow> ResponseWriter \<Rightarrow> Request \<Rightarrow> BackendCall list \<times> ResponseWriter" where
  "HandleComplete env h w r =
     (if Method r \<noteq> ''POST'' then ([], sendErrorResponse w 405 ''Method not allowed'')
      else (case decodeCompleteRequest env (Body r) of
              None \<Rightarrow> ([], sendErrorResponse w 400 ''Invalid JSON format'')
            | Some req \<Rightarrow>
                (if Prompt req = []
                 then ([], sendErrorResponse w 400 ''Prompt cannot be empty'')
                 else (let maxTokens = (if MaxTokens req = 0 then 150 else MaxTokens req);
                           temperature = (if Temperature req = 0 then 0.7 else Temperature req)
                       in case GetComplete env (aiService h) (Prompt req) maxTokens temperature of
                            (calls, Inl err) \<Rightarrow>
                              (calls, sendErrorResponse w 500 ''Failed to get completion'')
                          | (calls, Inr aiResponse) \<Rightarrow>
                              (let response = \<lparr>Response = aiResponse, Response_UserID = UserID req,
                                                Timestamp = timeNow env,
                                                Model = GetModel (aiService h)\<rparr>;
                                   w1 = SetHeader w ''Content-Type'' ''application/json'';
                                   w2 = WriteHeader w1 200
                               in (calls, Write w2 (TextJSON response)))))))"

definition HandleGenerate ::
  "Env \<Rightarrow> AIHandler \<Rightarrow> ResponseWriter \<Rightarrow> Request \<Rightarrow> BackendCall list \<times> ResponseWriter" where
  "HandleGenerate env h w r =
     (if Method r \<noteq> ''POST'' then ([], sendErrorResponse w 405 ''Method not allowed'')
      else (case decodeGenerateRequest env (Body r) of
              None \<Rightarrow> ([], sendErrorResponse w 400 ''Invalid JSON format'')
            | Some req \<Rightarrow>
                (if Prompt req = []
                 then ([], sendErrorResponse w 400 ''Prompt cannot be empty'')
                 else (let maxTokens = (if MaxTokens req = 0 then 150 else MaxTokens req);
                           temperature = (if Temperature req = 0 then 0.7 else Temperature req)
                       in case GetGenerate env (aiService h) (Prompt req) maxTokens temperature of
                            (calls, Inl err) \<Rightarrow>
                              (calls, sendErrorResponse w 500 ''Failed to get generation'')
                          | (calls, Inr aiResponse) \<Rightarrow>
                              (let response = \<lparr>Response = aiResponse, Response_UserID = UserID req,
                                                Timestamp = timeNow env,
                                                Model = GetModel (aiService h)\<rparr>;
                                   w1 = SetHeader w ''Content-Type'' ''application/json'';
                                   w2 = WriteHeader w1 200
                               in (calls, Write w2 (TextJSON response)))))))"

definition HandleHealth ::
  "Env \<Rightarrow> AIHandler \<Rightarrow> ResponseWriter \<Rightarrow> Request \<Rightarrow> BackendCall list \<times> ResponseWriter" where
  "HandleHealth env h w r =
     (let response = \<lparr>Status = ''healthy'', Health_Timestamp = timeNow env, Version = ''1.0.0''\<rparr>;
          w1 = SetHeader w ''Content-Type'' ''application/json'';
          w2 = WriteHeader w1 200
      in ([], Write w2 (HealthJSON response)))"

definition HandleModelInfo ::
  "Env \<Rightarrow> AIHandler \<Rightarrow> ResponseWriter \<Rightarrow> Request \<Rightarrow> BackendCall list \<times> ResponseWriter" where
  "HandleModelInfo env h w r =
     (case GetModelInfo env (aiService h) of
        (calls, Inl err) \<Rightarrow> (calls, sendErrorResponse w 500 ''Failed to get model information'')
      | (calls, Inr modelInfo) \<Rightarrow>
          (let w1 = SetHeader w ''Content-Type'' ''application/json'';
               w2 = WriteHeader w1 200
           in (calls, Write w2 (ObjectJSON modelInfo))))"



section \<open>Example inputs\<close>

text \<open>
  Concrete requests, clocks, stores and a stub backend, for evaluating the program at
  explicit inputs.
\<close>

definition peerRequest :: "string \<Rightarrow> string \<Rightarrow> string \<Rightarrow> Request" where
  "peerRequest m path addr =
     \<lparr>Method = m, URL_Path = path, Header = Map.empty, RemoteAddr = addr, Body = ''hello''\<rparr>"

definition atInstant :: "time \<Rightarrow> Readings" where
  "atInstant t = \<lparr>atCheck = t, atRemaining = t, atReset = t\<rparr>"

definition passHandler :: HandlerFunc where
  "passHandler = plainHandler (\<lambda>w r. w)"

definition oneClient :: "string \<Rightarrow> time list \<Rightarrow> RateLimiter" where
  "oneClient ip ts = \<lparr>clients = [ip \<mapsto> \<lparr>requests = ts\<rparr>]\<rparr>"

definition twoClients :: "string \<Rightarrow> time list \<Rightarrow> string \<Rightarrow> time list \<Rightarrow> RateLimiter" where
  "twoClients ip ts ip' ts' = \<lparr>clients = [ip \<mapsto> \<lparr>requests = ts\<rparr>, ip' \<mapsto> \<lparr>requests = ts'\<rparr>]\<rparr>"

text \<open>
  A stub environment: a request body decodes to a request whose prompt (or single
  message) is the body and whose optional fields are \<open>maxTokens\<close> and \<open>temperature\<close>
  (0 for a field the caller left out); marshalling and request construction succeed;
  the backend answers every request with \<open>reply\<close>.
\<close>

definition stubEnv :: "int \<Rightarrow> real \<Rightarrow> string + BackendResponse \<Rightarrow> Env" where
  "stubEnv maxTokens temperature reply =
     \<lparr>timeNow = 0,
      decodeChatCompletionRequest =
        (\<lambda>b. Some \<lparr>MaxTokens = maxTokens, Temperature = temperature, UserID = ''u1'',
                    Messages = [\<lparr>Role = ''user'', Content = b\<rparr>]\<rparr>),
      decodeCompleteRequest =
        (\<lambda>b. Some \<lparr>MaxTokens = maxTokens, Temperature = temperature, UserID = ''u1'',
                    Prompt = b\<rparr>),
      decodeGenerateRequest =
        (\<lambda>b. Some \<lparr>MaxTokens = maxTokens, Temperature = temperature, UserID = ''u1'',
                    Prompt = b\<rparr>),
      marshalError = (\<lambda>p. None),
      newRequestError = (\<lambda>m url. None),
      clientDo = (\<lambda>c. reply),
      unmarshalLLMResponse = (\<lambda>b. Inr \<lparr>GeneratedText = b, Echo_Prompt = []\<rparr>),
      unmarshalObject = (\<lambda>b. Inr [''content'' \<mapsto> JString b, ''completion'' \<mapsto> JString b])\<rparr>"

text \<open>A backend that is down: a 503 with a body, and a refused connection.\<close>

definition unavailable :: "string + BackendResponse" where
  "unavailable = Inr \<lparr>StatusCode = 503, ReadAll = Inr ''upstream at 10.1.2.3:8082 is down''\<rparr>"



section \<open>Properties of the rate limiter\<close>

lemma Minute_pos: "0 < Minute"
  by (simp add: Minute_def Second_def)

lemma window_newRateLimiter: "window newRateLimiter ip = []"
  by (simp add: window_def newRateLimiter_def)

lemma window_isAllowed_same:
  "window (snd (isAllowed rl now ip limit)) ip =
     (let valid = filter (\<lambda>t. now - Minute < t) (window rl ip)
      in if limit \<le> int (length valid) then valid else valid @ [now])"
  by (simp add: isAllowed_def window_def Let_def After_def Add_def split: option.splits)

lemma window_isAllowed_other:
  "ip' \<noteq> ip \<Longrightarrow> window (snd (isAllowed rl now ip limit)) ip' = window rl ip'"
  by (simp add: isAllowed_def window_def Let_def)

lemma fst_isAllowed:
  "fst (isAllowed rl now ip limit) \<longleftrightarrow>
     int (length (filter (\<lambda>t. now - Minute < t) (window rl ip))) < limit"
  by (simp add: isAllowed_def window_def Let_def After_def Add_def split: option.splits)

lemma replay_Cons:
  "replay rl limit ((ip, now) # calls) =
     (fst (isAllowed rl now ip limit) # fst (replay (snd (isAllowed rl now ip limit)) limit calls),
      snd (replay (snd (isAllowed rl now ip limit)) limit calls))"
  by (simp add: case_prod_beta Let_def)

declare replay.simps(2) [simp del]


lemma length_window_isAllowed:
  assumes "int (length (window rl ip)) \<le> limit"
  shows "int (length (window (snd (isAllowed rl now ip' limit)) ip)) \<le> limit"
proof (cases "ip' = ip")
  case True
  have "int (length (filter (\<lambda>t. now - Minute < t) (window rl ip))) \<le> int (length (window rl ip))"
    by simp
  with assms have "int (length (filter (\<lambda>t. now - Minute < t) (window rl ip))) \<le> limit"
    by linarith
  with True show ?thesis
    by (auto simp: window_isAllowed_same Let_def)
next
  case False
  with assms show ?thesis
    by (simp add: window_isAllowed_other)
qed

lemma length_window_replay:
  "int (length (window rl ip)) \<le> limit \<Longrightarrow>
   int (length (window (snd (replay rl limit calls)) ip)) \<le> limit"
proof (induction calls arbitrary: rl)
  case Nil
  then show ?case by simp
next
  case (Cons c calls)
  obtain ip' now where c: "c = (ip', now)"
    by (cases c)
  show ?case
    using Cons.IH [OF length_window_isAllowed [OF Cons.prems, of now ip']]
    by (simp add: c replay_Cons)
qed





text \<open>
  Claim C10.  Start from an empty window for the identity and run any calls of
  \<^verbatim>\<open>isAllowed\<close>, of any identities at any clock readings, with one limit \<open>N \<ge> 0\<close>.
  Immediately after each call for the identity its stored timestamps are at most
  \<open>N\<close>, each is strictly newer than that call's \<open>now\<close> minus 60 seconds, and a denied
  call stores the pruned window without a new timestamp.
\<close>

theorem isAllowed_window_invariant:
  assumes "window rl ip = []" and "0 \<le> limit"
    and "rl1 = snd (replay rl limit calls)"
    and "r = isAllowed rl1 now ip limit"
  shows "int (length (window (snd r) ip)) \<le> limit \<and>
     (\<forall>t\<in>set (window (snd r) ip). now - Minute < t) \<and>
     (\<not> fst r \<longrightarrow> window (snd r) ip = filter (\<lambda>t. now - Minute < t) (window rl1 ip))"
proof -
  have "int (length (window rl1 ip)) \<le> limit"
    unfolding assms(3) by (rule length_window_replay) (simp add: assms)
  then have bounded: "int (length (window (snd r) ip)) \<le> limit"
    unfolding assms(4) by (rule length_window_isAllowed)
  have fresh: "\<forall>t\<in>set (window (snd r) ip). now - Minute < t"
    using Minute_pos by (auto simp: assms(4) window_isAllowed_same Let_def)
  have pruned: "\<not> fst r \<longrightarrow> window (snd r) ip = filter (\<lambda>t. now - Minute < t) (window rl1 ip)"
    by (auto simp: assms(4) window_isAllowed_same fst_isAllowed Let_def)
  from bounded fresh pruned show ?thesis
    by blast
qed

theorem isAllowed_window_invariant_witness:
  "int (length (window (snd (isAllowed (snd (replay newRateLimiter 1 [(''a'', 0)])) 5 ''a'' 1)) ''a'')) \<le> 1 \<and>
   \<not> fst (isAllowed (snd (replay newRateLimiter 1 [(''a'', 0)])) 5 ''a'' 1) \<and>
   window (snd (isAllowed (snd (replay newRateLimiter 1 [(''a'', 0)])) 5 ''a'' 1)) ''a'' = [0]"
proof -
  have w1: "window (snd (replay newRateLimiter 1 [(''a'', 0)])) ''a'' = [0]"
    by (simp add: replay_Cons window_isAllowed_same window_newRateLimiter)
  have denied: "\<not> fst (isAllowed (snd (replay newRateLimiter 1 [(''a'', 0)])) 5 ''a'' 1)"
    unfolding fst_isAllowed w1 by (simp add: Minute_def Second_def)
  show ?thesis
    using isAllowed_window_invariant [OF window_newRateLimiter _ refl refl, of 1 "[(''a'', 0)]" 5]
      denied
    unfolding window_isAllowed_same w1 by (simp add: Minute_def Second_def)
qed


section \<open>Properties of the middleware\<close>

lemma canon_keys:
  "CanonicalMIMEHeaderKey ''X-RateLimit-Limit'' = ''X-Ratelimit-Limit''"
  "CanonicalMIMEHeaderKey ''X-RateLimit-Remaining'' = ''X-Ratelimit-Remaining''"
  "CanonicalMIMEHeaderKey ''X-RateLimit-Reset'' = ''X-Ratelimit-Reset''"
  "CanonicalMIMEHeaderKey ''Access-Control-Allow-Origin'' = ''Access-Control-Allow-Origin''"
  "CanonicalMIMEHeaderKey ''Access-Control-Allow-Methods'' = ''Access-Control-Allow-Methods''"
  "CanonicalMIMEHeaderKey ''Access-Control-Allow-Headers'' = ''Access-Control-Allow-Headers''"
  "CanonicalMIMEHeaderKey ''Content-Type'' = ''Content-Type''"
  "CanonicalMIMEHeaderKey ''X-Content-Type-Options'' = ''X-Content-Type-Options''"
  "CanonicalMIMEHeaderKey ''X-Forwarded-For'' = ''X-Forwarded-For''"
  "CanonicalMIMEHeaderKey ''X-Real-IP'' = ''X-Real-Ip''"
  by code_simp+

lemma Header_Get_Set:
  "Header_Get (Header_Set h key v) key' =
     (if CanonicalMIMEHeaderKey key' = CanonicalMIMEHeaderKey key then v else Header_Get h key')"
  by (simp add: Header_Get_def Header_Set_def)

lemma wHeader_SetHeader [simp]: "wHeader (SetHeader w key v) = Header_Set (wHeader w) key v"
  by (simp add: SetHeader_def)

lemma wStatus_SetHeader [simp]: "wStatus (SetHeader w key v) = wStatus w"
  by (simp add: SetHeader_def)

lemma wBody_SetHeader [simp]: "wBody (SetHeader w key v) = wBody w"
  by (simp add: SetHeader_def)

lemma wHeader_WriteHeader [simp]: "wHeader (WriteHeader w code) = wHeader w"
  by (simp add: WriteHeader_def split: option.splits)

lemma wStatus_WriteHeader:
  "wStatus (WriteHeader w code) = (case wStatus w of None \<Rightarrow> Some code | Some c \<Rightarrow> Some c)"
  by (simp add: WriteHeader_def split: option.splits)

lemma wHeader_Write [simp]: "wHeader (Write w d) = wHeader w"
  by (simp add: Write_def Let_def)

lemma wStatus_Write:
  "wStatus (Write w d) = (case wStatus w of None \<Rightarrow> Some 200 | Some c \<Rightarrow> Some c)"
  by (simp add: Write_def Let_def wStatus_WriteHeader)

lemma wHeader_http_Error:
  "wHeader (http_Error w msg code) =
     Header_Set (Header_Set (wHeader w) ''Content-Type'' ''text/plain; charset=utf-8'')
       ''X-Content-Type-Options'' ''nosniff''"
  by (simp add: http_Error_def Let_def)

lemma wStatus_http_Error:
  "wStatus (http_Error w msg code) = (case wStatus w of None \<Rightarrow> Some code | Some c \<Rightarrow> Some c)"
  by (simp add: http_Error_def Let_def wStatus_Write wStatus_WriteHeader split: option.splits)

lemma getRemainingRequests_window:
  "clients rl ip \<noteq> None \<Longrightarrow>
   getRemainingRequests rl now ip limit =
     max 0 (limit - int (length (filter (\<lambda>t. now - Minute < t) (window rl ip))))"
  by (auto simp: getRemainingRequests_def window_def Let_def After_def Add_def split: option.splits)

lemma clients_isAllowed_same: "clients (snd (isAllowed rl now ip limit)) ip \<noteq> None"
  by (simp add: isAllowed_def Let_def)

lemma rateLimitMiddleware_denied:
  "\<not> fst (isAllowed rl (atCheck clock) (getClientIP r) limit) \<Longrightarrow>
   rateLimitMiddleware limit clock next rl w r =
     (snd (isAllowed rl (atCheck clock) (getClientIP r) limit),
      http_Error
        (SetHeader (SetHeader (SetHeader (SetHeader (SetHeader (SetHeader w
           ''X-RateLimit-Limit'' (Itoa limit))
           ''X-RateLimit-Remaining'' ''0'')
           ''X-RateLimit-Reset'' (FormatInt10 (Unix (atReset clock + Minute))))
           ''Access-Control-Allow-Origin'' ''*'')
           ''Access-Control-Allow-Methods'' ''GET, POST, OPTIONS'')
           ''Access-Control-Allow-Headers'' ''Content-Type'')
        rateLimitExceededBody 429)"
  by (simp add: rateLimitMiddleware_def Let_def case_prod_beta Add_def)

lemma rateLimitMiddleware_admitted:
  "fst (isAllowed rl (atCheck clock) (getClientIP r) limit) \<Longrightarrow>
   rateLimitMiddleware limit clock next rl w r =
     next (snd (isAllowed rl (atCheck clock) (getClientIP r) limit))
       (SetHeader (SetHeader (SetHeader w
          ''X-RateLimit-Limit'' (Itoa limit))
          ''X-RateLimit-Remaining''
             (Itoa (getRemainingRequests (snd (isAllowed rl (atCheck clock) (getClientIP r) limit))
                      (atRemaining clock) (getClientIP r) limit)))
          ''X-RateLimit-Reset'' (FormatInt10 (Unix (atReset clock + Minute))))
       r"
  by (simp add: rateLimitMiddleware_def Let_def case_prod_beta Add_def)

lemma window_fresh_after_isAllowed:
  "\<forall>t\<in>set (window (snd (isAllowed rl now ip limit)) ip). now - Minute < t"
  using Minute_pos by (auto simp: window_isAllowed_same Let_def)

lemma remaining_after_admission:
  assumes "fst (isAllowed rl now ip limit)"
    and "\<forall>t\<in>set (window (snd (isAllowed rl now ip limit)) ip). now' - Minute < t"
  shows "getRemainingRequests (snd (isAllowed rl now ip limit)) now' ip limit =
           limit - int (length (window (snd (isAllowed rl now ip limit)) ip))"
proof -
  let ?rl1 = "snd (isAllowed rl now ip limit)"
  have keep: "filter (\<lambda>t. now' - Minute < t) (window ?rl1 ip) = window ?rl1 ip"
    using assms(2) by (simp add: filter_id_conv)
  have "int (length (filter (\<lambda>t. now - Minute < t) (window rl ip))) < limit"
    using assms(1) by (simp add: fst_isAllowed)
  then have "int (length (window ?rl1 ip)) \<le> limit"
    by (simp add: window_isAllowed_same Let_def)
  then show ?thesis
    by (simp add: getRemainingRequests_window [OF clients_isAllowed_same] keep)
qed

text \<open>
  The condition on the second clock reading is needed: with quota 5 and a request
  recorded at time 0, a request admitted one nanosecond before the minute is over and
  counted again at the full minute finds the old timestamp expired, so the header says
  4 where the quota minus the new count is 3.
\<close>

lemma remaining_after_expiry_example:
  "fst (isAllowed (oneClient ''10.0.0.1'' [0]) 59999999999 ''10.0.0.1'' 5) \<and>
   window (snd (isAllowed (oneClient ''10.0.0.1'' [0]) 59999999999 ''10.0.0.1'' 5)) ''10.0.0.1'' =
     [0, 59999999999] \<and>
   getRemainingRequests (snd (isAllowed (oneClient ''10.0.0.1'' [0]) 59999999999 ''10.0.0.1'' 5))
     60000000000 ''10.0.0.1'' 5 = 4"
proof -
  have recorded: "window (oneClient ''10.0.0.1'' [0]) ''10.0.0.1'' = [0]"
    by (simp add: window_def oneClient_def)
  show ?thesis
    by (simp add: fst_isAllowed window_isAllowed_same
        getRemainingRequests_window [OF clients_isAllowed_same] recorded Minute_def Second_def)
qed

lemma getClientIP_peerRequest [simp]:
  "getClientIP (peerRequest m p ''10.0.0.1:5000'') = ''10.0.0.1''"
  by (simp add: peerRequest_def getClientIP_def Header_Get_def)

lemma window_oneClient [simp]: "window (oneClient ip ts) ip = ts"
  by (simp add: window_def oneClient_def)

lemma Itoa_examples: "Itoa 90 = ''90''" "Itoa 60 = ''60''" "Itoa 1 = ''1''"
  by (simp_all add: Itoa_def)


text \<open>
  Claim C4.  Whatever the route's handler and quota, an \<^verbatim>\<open>OPTIONS\<close> request is
  answered by the CORS stage alone: the three CORS headers are set, the header is
  written with status 200, neither the rate-limit stage nor the handler runs, and the
  limiter comes back as it was, so no timestamp is recorded for the caller.
\<close>

theorem preflight_skips_rate_limit:
  assumes "Method r = ''OPTIONS''"
  shows "protectedHandler handler rateLimit clock rl w r =
      (rl, WriteHeader
             (SetHeader
               (SetHeader
                 (SetHeader w ''Access-Control-Allow-Origin'' ''*'')
                 ''Access-Control-Allow-Methods'' ''GET, POST, OPTIONS'')
               ''Access-Control-Allow-Headers'' ''Content-Type'') 200) \<and>
     window (fst (protectedHandler handler rateLimit clock rl w r)) (getClientIP r) =
       window rl (getClientIP r) \<and>
     (wStatus w = None \<longrightarrow>
        wStatus (snd (protectedHandler handler rateLimit clock rl w r)) = Some 200)"
  using assms by (simp add: protectedHandler_def corsMiddleware_def Let_def wStatus_WriteHeader)

theorem preflight_skips_rate_limit_witness:
  "fst (protectedHandler passHandler 1 (atInstant 30000000000) (oneClient ''10.0.0.1'' [])
          newResponseWriter (peerRequest ''OPTIONS'' ''/ai/generate'' ''10.0.0.1:5000'')) =
     oneClient ''10.0.0.1'' [] \<and>
   wStatus (snd (protectedHandler passHandler 1 (atInstant 30000000000) (oneClient ''10.0.0.1'' [])
          newResponseWriter (peerRequest ''OPTIONS'' ''/ai/generate'' ''10.0.0.1:5000''))) =
     Some 200"
proof -
  have preflight: "Method (peerRequest ''OPTIONS'' ''/ai/generate'' ''10.0.0.1:5000'') = ''OPTIONS''"
    by (simp add: peerRequest_def)
  have fresh: "wStatus newResponseWriter = None"
    by (simp add: newResponseWriter_def)
  show ?thesis
    using preflight_skips_rate_limit [OF preflight, of passHandler 1 "atInstant 30000000000"
        "oneClient ''10.0.0.1'' []" newResponseWriter] fresh
    by (simp add: wStatus_WriteHeader)
qed


text \<open>
  Claim C3, as amended.  On a denied request, with the response header not yet
  written, the rate-limit stage answers with status 429, \<^verbatim>\<open>X-RateLimit-Remaining\<close>
  \<open>0\<close> and \<^verbatim>\<open>X-RateLimit-Reset\<close> the Unix second of its own clock reading plus one
  minute, and the limiter is the one \<^verbatim>\<open>isAllowed\<close> left.  On an admitted request it
  calls the next handler with \<^verbatim>\<open>X-RateLimit-Remaining\<close> set to what
  \<^verbatim>\<open>getRemainingRequests\<close> returns at its own clock reading and
  \<^verbatim>\<open>X-RateLimit-Reset\<close> set to the Unix second of the clock reading plus one minute;
  the remaining count is the quota minus the new count when every timestamp of the
  window is still newer than that reading minus one minute, as it is when the two
  clock readings agree.
\<close>

theorem rateLimitMiddleware_headers:
  "(\<not> fst (isAllowed rl (atCheck clock) (getClientIP r) limit) \<longrightarrow> wStatus w = None \<longrightarrow>
      fst (rateLimitMiddleware limit clock next rl w r) =
        snd (isAllowed rl (atCheck clock) (getClientIP r) limit) \<and>
      wStatus (snd (rateLimitMiddleware limit clock next rl w r)) = Some 429 \<and>
      Header_Get (wHeader (snd (rateLimitMiddleware limit clock next rl w r)))
        ''X-RateLimit-Remaining'' = ''0'' \<and>
      Header_Get (wHeader (snd (rateLimitMiddleware limit clock next rl w r)))
        ''X-RateLimit-Reset'' = FormatInt10 (Unix (atReset clock + Minute))) \<and>
   (fst (isAllowed rl (atCheck clock) (getClientIP r) limit) \<longrightarrow>
      (let rl1 = snd (isAllowed rl (atCheck clock) (getClientIP r) limit);
           remaining = getRemainingRequests rl1 (atRemaining clock) (getClientIP r) limit;
           w3 = SetHeader (SetHeader (SetHeader w
                  ''X-RateLimit-Limit'' (Itoa limit))
                  ''X-RateLimit-Remaining'' (Itoa remaining))
                  ''X-RateLimit-Reset'' (FormatInt10 (Unix (atReset clock + Minute)))
       in rateLimitMiddleware limit clock next rl w r = next rl1 w3 r \<and>
          Header_Get (wHeader w3) ''X-RateLimit-Remaining'' = Itoa remaining \<and>
          Header_Get (wHeader w3) ''X-RateLimit-Reset'' =
            FormatInt10 (Unix (atReset clock + Minute)) \<and>
          ((\<forall>t\<in>set (window rl1 (getClientIP r)). atRemaining clock - Minute < t) \<longrightarrow>
             remaining = limit - int (length (window rl1 (getClientIP r)))) \<and>
          (atRemaining clock = atCheck clock \<longrightarrow>
             remaining = limit - int (length (window rl1 (getClientIP r))))))"
proof (intro conjI impI)
  assume d: "\<not> fst (isAllowed rl (atCheck clock) (getClientIP r) limit)" and f: "wStatus w = None"
  show "fst (rateLimitMiddleware limit clock next rl w r) =
        snd (isAllowed rl (atCheck clock) (getClientIP r) limit)"
    by (simp add: rateLimitMiddleware_denied [OF d])
  show "wStatus (snd (rateLimitMiddleware limit clock next rl w r)) = Some 429"
    by (simp add: rateLimitMiddleware_denied [OF d] wStatus_http_Error f)
  show "Header_Get (wHeader (snd (rateLimitMiddleware limit clock next rl w r)))
      ''X-RateLimit-Remaining'' = ''0''"
    by (simp add: rateLimitMiddleware_denied [OF d] wHeader_http_Error Header_Get_Set canon_keys)
  show "Header_Get (wHeader (snd (rateLimitMiddleware limit clock next rl w r)))
      ''X-RateLimit-Reset'' = FormatInt10 (Unix (atReset clock + Minute))"
    by (simp add: rateLimitMiddleware_denied [OF d] wHeader_http_Error Header_Get_Set canon_keys)
next
  assume a: "fst (isAllowed rl (atCheck clock) (getClientIP r) limit)"
  show "let rl1 = snd (isAllowed rl (atCheck clock) (getClientIP r) limit);
           remaining = getRemainingRequests rl1 (atRemaining clock) (getClientIP r) limit;
           w3 = SetHeader (SetHeader (SetHeader w
                  ''X-RateLimit-Limit'' (Itoa limit))
                  ''X-RateLimit-Remaining'' (Itoa remaining))
                  ''X-RateLimit-Reset'' (FormatInt10 (Unix (atReset clock + Minute)))
       in rateLimitMiddleware limit clock next rl w r = next rl1 w3 r \<and>
          Header_Get (wHeader w3) ''X-RateLimit-Remaining'' = Itoa remaining \<and>
          Header_Get (wHeader w3) ''X-RateLimit-Reset'' =
            FormatInt10 (Unix (atReset clock + Minute)) \<and>
          ((\<forall>t\<in>set (window rl1 (getClientIP r)). atRemaining clock - Minute < t) \<longrightarrow>
             remaining = limit - int (length (window rl1 (getClientIP r)))) \<and>
          (atRemaining clock = atCheck clock \<longrightarrow>
             remaining = limit - int (length (window rl1 (getClientIP r))))"
    unfolding Let_def
  proof (intro conjI impI)
    show "rateLimitMiddleware limit clock next rl w r =
        next (snd (isAllowed rl (atCheck clock) (getClientIP r) limit))
          (SetHeader (SetHeader (SetHeader w
             ''X-RateLimit-Limit'' (Itoa limit))
             ''X-RateLimit-Remaining''
               (Itoa (getRemainingRequests (snd (isAllowed rl (atCheck clock) (getClientIP r) limit))
                        (atRemaining clock) (getClientIP r) limit)))
             ''X-RateLimit-Reset'' (FormatInt10 (Unix (atReset clock + Minute))))
          r"
      by (rule rateLimitMiddleware_admitted [OF a])
  next
    assume "\<forall>t\<in>set (window (snd (isAllowed rl (atCheck clock) (getClientIP r) limit)) (getClientIP r)).
        atRemaining clock - Minute < t"
    then show "getRemainingRequests (snd (isAllowed rl (atCheck clock) (getClientIP r) limit))
         (atRemaining clock) (getClientIP r) limit =
       limit - int (length (window (snd (isAllowed rl (atCheck clock) (getClientIP r) limit))
                              (getClientIP r)))"
      by (rule remaining_after_admission [OF a])
  next
    assume "atRemaining clock = atCheck clock"
    then show "getRemainingRequests (snd (isAllowed rl (atCheck clock) (getClientIP r) limit))
         (atRemaining clock) (getClientIP r) limit =
       limit - int (length (window (snd (isAllowed rl (atCheck clock) (getClientIP r) limit))
                              (getClientIP r)))"
      using remaining_after_admission [OF a, of "atRemaining clock"] window_fresh_after_isAllowed
      by simp
  qed (simp_all add: Header_Get_Set canon_keys)
qed

text \<open>
  The claim as first stated fails: with quota 1, one request recorded at time 0 and a
  second request 30 seconds later, the denial carries the reset time 90 (the clock
  plus a minute), not 60 (the oldest retained timestamp plus a minute).
\<close>

theorem denied_reset_is_not_oldest_plus_minute:
  "wStatus (snd (rateLimitMiddleware 1 (atInstant 30000000000) passHandler
                   (oneClient ''10.0.0.1'' [0]) newResponseWriter
                   (peerRequest ''GET'' ''/health'' ''10.0.0.1:5000''))) = Some 429 \<and>
   Header_Get (wHeader (snd (rateLimitMiddleware 1 (atInstant 30000000000) passHandler
                   (oneClient ''10.0.0.1'' [0]) newResponseWriter
                   (peerRequest ''GET'' ''/health'' ''10.0.0.1:5000'')))) ''X-RateLimit-Reset'' = ''90'' \<and>
   Header_Get (wHeader (snd (rateLimitMiddleware 1 (atInstant 30000000000) passHandler
                   (oneClient ''10.0.0.1'' [0]) newResponseWriter
                   (peerRequest ''GET'' ''/health'' ''10.0.0.1:5000'')))) ''X-RateLimit-Reset'' \<noteq>
     FormatInt10 (Unix (Add (hd (window (fst (rateLimitMiddleware 1 (atInstant 30000000000) passHandler
                   (oneClient ''10.0.0.1'' [0]) newResponseWriter
                   (peerRequest ''GET'' ''/health'' ''10.0.0.1:5000''))) ''10.0.0.1'')) Minute))"
proof -
  have denied: "\<not> fst (isAllowed (oneClient ''10.0.0.1'' [0]) (atCheck (atInstant 30000000000))
      (getClientIP (peerRequest ''GET'' ''/health'' ''10.0.0.1:5000'')) 1)"
    by (simp add: fst_isAllowed atInstant_def Minute_def Second_def)
  have kept: "window (snd (isAllowed (oneClient ''10.0.0.1'' [0]) 30000000000 ''10.0.0.1'' 1)) ''10.0.0.1'' = [0]"
    by (simp add: window_isAllowed_same Minute_def Second_def)
  show ?thesis
    unfolding rateLimitMiddleware_denied [OF denied]
    by (simp add: wStatus_http_Error wHeader_http_Error Header_Get_Set canon_keys
        newResponseWriter_def atInstant_def kept FormatInt10_def Unix_def Add_def Minute_def
        Second_def Itoa_def)
qed

theorem rateLimitMiddleware_headers_witness:
  "wStatus (snd (rateLimitMiddleware 1 (atInstant 30000000000) passHandler
                   (oneClient ''10.0.0.1'' [0]) newResponseWriter
                   (peerRequest ''GET'' ''/health'' ''10.0.0.1:5000''))) = Some 429 \<and>
   Header_Get (wHeader (snd (rateLimitMiddleware 1 (atInstant 30000000000) passHandler
                   (oneClient ''10.0.0.1'' [0]) newResponseWriter
                   (peerRequest ''GET'' ''/health'' ''10.0.0.1:5000'')))) ''X-RateLimit-Remaining'' = ''0'' \<and>
   Header_Get (wHeader (snd (rateLimitMiddleware 5 (atInstant 30000000000) passHandler
                   (oneClient ''10.0.0.1'' [0]) newResponseWriter
                   (peerRequest ''GET'' ''/health'' ''10.0.0.1:5000'')))) ''X-RateLimit-Remaining'' = ''3'' \<and>
   Header_Get (wHeader (snd (rateLimitMiddleware 5 (atInstant 30000000000) passHandler
                   (oneClient ''10.0.0.1'' [0]) newResponseWriter
                   (peerRequest ''GET'' ''/health'' ''10.0.0.1:5000'')))) ''X-RateLimit-Reset'' = ''90''"
proof -
  have denied: "\<not> fst (isAllowed (oneClient ''10.0.0.1'' [0]) (atCheck (atInstant 30000000000))
      (getClientIP (peerRequest ''GET'' ''/health'' ''10.0.0.1:5000'')) 1)"
    by (simp add: fst_isAllowed atInstant_def Minute_def Second_def)
  have admitted: "fst (isAllowed (oneClient ''10.0.0.1'' [0]) (atCheck (atInstant 30000000000))
      (getClientIP (peerRequest ''GET'' ''/health'' ''10.0.0.1:5000'')) 5)"
    by (simp add: fst_isAllowed atInstant_def Minute_def Second_def)
  have kept: "window (snd (isAllowed (oneClient ''10.0.0.1'' [0]) 30000000000 ''10.0.0.1'' 5)) ''10.0.0.1'' =
      [0, 30000000000]"
    by (simp add: window_isAllowed_same Minute_def Second_def)
  have fresh: "wStatus newResponseWriter = None"
    by (simp add: newResponseWriter_def)
  have reset: "FormatInt10 (Unix (30000000000 + Minute)) = ''90''"
    by (simp add: FormatInt10_def Unix_def Minute_def Second_def Itoa_def)
  have three: "Itoa 3 = ''3''"
    by (simp add: Itoa_def)
  show ?thesis
    using rateLimitMiddleware_headers [of "oneClient ''10.0.0.1'' [0]" "atInstant 30000000000"
                 "peerRequest ''GET'' ''/health'' ''10.0.0.1:5000''" 1 newResponseWriter passHandler]
      rateLimitMiddleware_headers [of "oneClient ''10.0.0.1'' [0]" "atInstant 30000000000"
                 "peerRequest ''GET'' ''/health'' ''10.0.0.1:5000''" 5 newResponseWriter passHandler]
      denied admitted fresh
    by (simp add: atInstant_def kept Minute_def Second_def Let_def passHandler_def plainHandler_def
        reset [unfolded Minute_def Second_def, simplified] three Header_Get_Set canon_keys)
qed


section \<open>Properties of the reclaim cycle\<close>

lemma window_remove_other:
  "ip \<noteq> k \<Longrightarrow> window (rl\<lparr>clients := (clients rl)(k := None)\<rparr>) ip = window rl ip"
  by (simp add: window_def)

lemma cleanupLoop_clients:
  "clients (cleanupLoop rl fiveMinutesAgo keys) =
     (\<lambda>ip. if ip \<in> set keys \<and> \<not> (\<exists>t\<in>set (window rl ip). fiveMinutesAgo < t)
           then None else clients rl ip)"
proof (induction keys arbitrary: rl)
  case Nil
  show ?case by simp
next
  case (Cons k keys)
  show ?case
  proof (cases "clients rl k")
    case None
    then show ?thesis
      by (auto simp: Cons.IH fun_eq_iff)
  next
    case (Some client)
    show ?thesis
    proof (cases "hasRecentRequests fiveMinutesAgo client")
      case True
      with Some show ?thesis
        by (auto simp: Cons.IH fun_eq_iff hasRecentRequests_def After_def window_def list_ex_iff)
    next
      case False
      with Some show ?thesis
        by (auto simp: Cons.IH fun_eq_iff hasRecentRequests_def After_def list_ex_iff
            window_remove_other) (auto simp: window_def)
    qed
  qed
qed

text \<open>
  Claim C5, as amended.  At every point of the iteration, after the first \<open>n\<close> keys
  of the range, the store has lost exactly the visited identities with no timestamp
  newer than \<open>now\<close> minus 5 minutes: an entry is deleted inside the loop, at its own
  turn.  After a range over all keys of the store, the identities left are exactly
  those with a timestamp newer than \<open>now\<close> minus 5 minutes, with their entries
  unchanged.
\<close>

theorem cleanupCycle_removes_idle:
  "clients (cleanupCycle rl now (take n keys)) =
     (\<lambda>ip. if ip \<in> set (take n keys) \<and> \<not> (\<exists>t\<in>set (window rl ip). now - 5 * Minute < t)
           then None else clients rl ip) \<and>
   (set keys = dom (clients rl) \<longrightarrow>
      dom (clients (cleanupCycle rl now keys)) =
        {ip \<in> dom (clients rl). \<exists>t\<in>set (window rl ip). now - 5 * Minute < t})"
  by (auto simp: cleanupCycle_def cleanupLoop_clients Add_def dom_def)

text \<open>
  The claim as first stated fails: with two idle identities, the first is already gone
  from the store when the range has visited it and not yet the second.
\<close>

theorem cleanup_removal_is_not_deferred:
  "\<not> removalDeferred (twoClients ''a'' [0] ''b'' [0]) 600000000000 [''a'', ''b'']"
  by (simp add: removalDeferred_def cleanupCycle_def twoClients_def hasRecentRequests_def
      After_def Add_def Minute_def Second_def upt_conv_Cons)

theorem cleanupCycle_removes_idle_witness:
  "clients (cleanupCycle (twoClients ''a'' [0] ''b'' [400000000000]) 600000000000 [''a'', ''b'']) ''a'' = None \<and>
   clients (cleanupCycle (twoClients ''a'' [0] ''b'' [400000000000]) 600000000000 [''a'', ''b'']) ''b'' =
     Some \<lparr>requests = [400000000000]\<rparr> \<and>
   clients (cleanupCycle (twoClients ''a'' [0] ''b'' [400000000000]) 600000000000 (take 1 [''a'', ''b''])) ''a'' = None \<and>
   dom (clients (cleanupCycle (twoClients ''a'' [0] ''b'' [400000000000]) 600000000000 [''a'', ''b''])) = {''b''}"
proof -
  have d: "set [''a'', ''b''] = dom (clients (twoClients ''a'' [0] ''b'' [400000000000]))"
    by (auto simp: twoClients_def)
  have w: "window (twoClients ''a'' [0] ''b'' [400000000000]) ''a'' = [0]"
    "window (twoClients ''a'' [0] ''b'' [400000000000]) ''b'' = [400000000000]"
    by (simp_all add: window_def twoClients_def)
  have c: "clients (twoClients ''a'' [0] ''b'' [400000000000]) ''b'' = Some \<lparr>requests = [400000000000]\<rparr>"
    by (simp add: twoClients_def)
  have s: "{ip \<in> dom (clients (twoClients ''a'' [0] ''b'' [400000000000])).
            \<exists>t\<in>set (window (twoClients ''a'' [0] ''b'' [400000000000]) ip). 300000000000 < t} = {''b''}"
    unfolding d [symmetric] using w by auto
  show ?thesis
    using cleanupCycle_removes_idle [of "twoClients ''a'' [0] ''b'' [400000000000]" 600000000000 2 "[''a'', ''b'']"]
      cleanupCycle_removes_idle [of "twoClients ''a'' [0] ''b'' [400000000000]" 600000000000 1 "[''a'', ''b'']"] d
    by (simp add: w c s Minute_def Second_def)
qed


section \<open>The client identity\<close>

lemma Split_not_Nil: "Split s sep \<noteq> []"
  by (induction s) (auto split: list.split)

lemma hd_Split: "hd (Split s sep) = takeWhile (\<lambda>c. c \<noteq> sep) s"
  by (induction s) (auto simp: Split_not_Nil split: list.split)

lemma getClientIP_precedence:
  "getClientIP r =
     (if Header_Get (Header r) ''X-Forwarded-For'' \<noteq> []
      then TrimSpace (takeWhile (\<lambda>c. c \<noteq> CHR '','') (Header_Get (Header r) ''X-Forwarded-For''))
      else if Header_Get (Header r) ''X-Real-IP'' \<noteq> []
      then Header_Get (Header r) ''X-Real-IP''
      else takeWhile (\<lambda>c. c \<noteq> CHR '':'') (RemoteAddr r))"
  by (simp add: getClientIP_def Let_def hd_Split)

lemma TrimSpace_examples:
  "TrimSpace '' 203.0.113.7 '' = ''203.0.113.7''"
  "TrimSpace [CHR 0x09, CHR ''a'', CHR '' '', CHR ''b'', CHR 0xC2, CHR 0xA0, CHR 0x0A] = ''a b''"
  "TrimSpace [CHR 0xA0, CHR ''a''] = [CHR 0xA0, CHR ''a'']"
  "TrimSpace ''   '' = []"
  by code_simp+

lemma getClientIP_examples:
  "getClientIP \<lparr>Method = ''GET'', URL_Path = ''/health'',
       Header = Header_Set (Header_Set Map.empty ''X-Real-IP'' ''198.51.100.2'')
                  ''X-Forwarded-For'' '' 203.0.113.7 , 10.0.0.1'',
       RemoteAddr = ''10.0.0.1:5000'', Body = []\<rparr> = ''203.0.113.7''"
  "getClientIP \<lparr>Method = ''GET'', URL_Path = ''/health'',
       Header = Header_Set Map.empty ''X-Real-IP'' ''198.51.100.2'',
       RemoteAddr = ''10.0.0.1:5000'', Body = []\<rparr> = ''198.51.100.2''"
  by code_simp+

text \<open>
  Claim C8.  Without proxy headers the identity is the peer address up to its first
  colon.  For an IPv6 peer, which \<^verbatim>\<open>net/http\<close> writes as \<^verbatim>\<open>[::1]:8080\<close>, that is the
  opening bracket alone and not the address without its port.
\<close>

theorem getClientIP_bracketed_peer:
  "getClientIP (peerRequest ''GET'' ''/health'' ''[::1]:8080'') = ''[''"
  by (simp add: peerRequest_def getClientIP_def Header_Get_def)


section \<open>Properties of the handlers\<close>

lemma postJSON_record:
  "postJSON url p =
     \<lparr>callMethod = ''POST'', callURL = url,
      callHeader = [''Content-Type'' \<mapsto> [''application/json'']],
      callBody = Some p\<rparr>"
  by (simp add: postJSON_def Header_Set_def canon_keys)

lemma callLLMEndpoint_calls:
  "fst (callLLMEndpoint env s endpoint request) =
     (if marshalError env (LLMRequestJSON request) \<noteq> None \<or>
         newRequestError env ''POST'' (llmBaseURL s @ endpoint) \<noteq> None
      then [] else [postJSON (llmBaseURL s @ endpoint) (LLMRequestJSON request)])"
  by (simp add: callLLMEndpoint_def Let_def split: option.split sum.split)

lemma callLLMEndpointWithJSON_calls:
  "fst (callLLMEndpointWithJSON env s endpoint request) =
     (if marshalError env request \<noteq> None \<or>
         newRequestError env ''POST'' (llmBaseURL s @ endpoint) \<noteq> None
      then [] else [postJSON (llmBaseURL s @ endpoint) request])"
  by (simp add: callLLMEndpointWithJSON_def Let_def split: option.split sum.split)

lemma GetGenerate_calls:
  "prompt \<noteq> [] \<Longrightarrow>
   fst (GetGenerate env s prompt maxTokens temperature) =
     fst (callLLMEndpoint env s ''/generate''
       \<lparr>LLM_Prompt = prompt, MaxLength = (if maxTokens = 0 then 150 else maxTokens),
        LLM_Temperature = (if temperature = 0 then 0.7 else temperature),
        TopP = 0, DoSample = True\<rparr>)"
  by (cases "maxTokens = 0"; cases "temperature = 0";
      simp add: GetGenerate_def Let_def split: prod.split sum.split)

lemma GetComplete_calls:
  "prompt \<noteq> [] \<Longrightarrow>
   fst (GetComplete env s prompt maxTokens temperature) =
     (let request = LLMRequestJSON
            \<lparr>LLM_Prompt = prompt, MaxLength = (if maxTokens = 0 then 150 else maxTokens),
             LLM_Temperature = (if temperature = 0 then 0.7 else temperature),
             TopP = 0, DoSample = True\<rparr>;
          url = llmBaseURL s @ ''/complete''
      in if marshalError env request \<noteq> None \<or> newRequestError env ''POST'' url \<noteq> None
         then [] else [postJSON url request])"
  by (cases "maxTokens = 0"; cases "temperature = 0";
      simp add: GetComplete_def Let_def split: option.split sum.split)

lemma GetChatCompletion_calls:
  "messages \<noteq> [] \<Longrightarrow>
   fst (GetChatCompletion env s messages maxTokens temperature) =
     fst (callLLMEndpointWithJSON env s ''/chat/completions''
       (ChatRequestJSON \<lparr>chat_messages = messages, chat_max_tokens = maxTokens,
          chat_temperature = temperature\<rparr>))"
  by (simp add: GetChatCompletion_def Let_def split: prod.split sum.split option.split)






lemma HandleGenerate_calls:
  "Method r = ''POST'' \<Longrightarrow> decodeGenerateRequest env (Body r) = Some req \<Longrightarrow> Prompt req \<noteq> [] \<Longrightarrow>
   fst (HandleGenerate env h w r) =
     fst (GetGenerate env (aiService h) (Prompt req)
            (if MaxTokens req = 0 then 150 else MaxTokens req)
            (if Temperature req = 0 then 0.7 else Temperature req))"
  by (simp add: HandleGenerate_def Let_def split: prod.split sum.split)

lemma HandleComplete_calls:
  "Method r = ''POST'' \<Longrightarrow> decodeCompleteRequest env (Body r) = Some req \<Longrightarrow> Prompt req \<noteq> [] \<Longrightarrow>
   fst (HandleComplete env h w r) =
     fst (GetComplete env (aiService h) (Prompt req)
            (if MaxTokens req = 0 then 150 else MaxTokens req)
            (if Temperature req = 0 then 0.7 else Temperature req))"
  by (simp add: HandleComplete_def Let_def split: prod.split sum.split)

lemma HandleChatCompletion_calls:
  "Method r = ''POST'' \<Longrightarrow> decodeChatCompletionRequest env (Body r) = Some req \<Longrightarrow>
   Messages req \<noteq> [] \<Longrightarrow>
   fst (HandleChatCompletion env h w r) =
     fst (GetChatCompletion env (aiService h) (Messages req)
            (if MaxTokens req = 0 then 150 else MaxTokens req)
            (if Temperature req = 0 then 0.7 else Temperature req))"
  by (simp add: HandleChatCompletion_def Let_def split: prod.split sum.split)








text \<open>
  Claim C6.  For a request that passes validation (method \<^verbatim>\<open>POST\<close>, a body that
  decodes, a non-empty prompt or message list), the handlers of \<^verbatim>\<open>/ai/generate\<close>,
  \<^verbatim>\<open>/ai/complete\<close> and \<^verbatim>\<open>/ai/chat/completions\<close> send the backend exactly one request
  (none when marshalling or building the request fails), and it carries the caller's
  token limit and temperature, with 150 in place of a token limit that is absent or 0
  and 0.7 in place of a temperature that is absent or 0.  The token limit travels as
  \<^verbatim>\<open>max_length\<close> for generate and complete and as \<^verbatim>\<open>max_tokens\<close> for chat.  The
  request is written out field by field: a \<^verbatim>\<open>POST\<close> to the route's path under the
  service's base URL, with the JSON content type and the payload as its body.
\<close>

theorem default_parameters_injected:
  "(Method r = ''POST'' \<longrightarrow> decodeGenerateRequest env (Body r) = Some greq \<longrightarrow> Prompt greq \<noteq> [] \<longrightarrow>
      fst (HandleGenerate env h w r) =
        (let request = LLMRequestJSON
               \<lparr>LLM_Prompt = Prompt greq,
                MaxLength = (if MaxTokens greq = 0 then 150 else MaxTokens greq),
                LLM_Temperature = (if Temperature greq = 0 then 0.7 else Temperature greq),
                TopP = 0, DoSample = True\<rparr>;
             url = llmBaseURL (aiService h) @ ''/generate''
         in if marshalError env request \<noteq> None \<or> newRequestError env ''POST'' url \<noteq> None
            then [] else [\<lparr>callMethod = ''POST'', callURL = url,
                    callHeader = [''Content-Type'' \<mapsto> [''application/json'']],
                    callBody = Some request\<rparr>])) \<and>
   (Method r = ''POST'' \<longrightarrow> decodeCompleteRequest env (Body r) = Some creq \<longrightarrow> Prompt creq \<noteq> [] \<longrightarrow>
      fst (HandleComplete env h w r) =
        (let request = LLMRequestJSON
               \<lparr>LLM_Prompt = Prompt creq,
                MaxLength = (if MaxTokens creq = 0 then 150 else MaxTokens creq),
                LLM_Temperature = (if Temperature creq = 0 then 0.7 else Temperature creq),
                TopP = 0, DoSample = True\<rparr>;
             url = llmBaseURL (aiService h) @ ''/complete''
         in if marshalError env request \<noteq> None \<or> newRequestError env ''POST'' url \<noteq> None
            then [] else [\<lparr>callMethod = ''POST'', callURL = url,
                    callHeader = [''Content-Type'' \<mapsto> [''application/json'']],
                    callBody = Some request\<rparr>])) \<and>
   (Method r = ''POST'' \<longrightarrow> decodeChatCompletionRequest env (Body r) = Some chreq \<longrightarrow>
    Messages chreq \<noteq> [] \<longrightarrow>
      fst (HandleChatCompletion env h w r) =
        (let request = ChatRequestJSON
               \<lparr>chat_messages = Messages chreq,
                chat_max_tokens = (if MaxTokens chreq = 0 then 150 else MaxTokens chreq),
                chat_temperature = (if Temperature chreq = 0 then 0.7 else Temperature chreq)\<rparr>;
             url = llmBaseURL (aiService h) @ ''/chat/completions''
         in if marshalError env request \<noteq> None \<or> newRequestError env ''POST'' url \<noteq> None
            then [] else [\<lparr>callMethod = ''POST'', callURL = url,
                    callHeader = [''Content-Type'' \<mapsto> [''application/json'']],
                    callBody = Some request\<rparr>]))"
proof (intro conjI impI)
  assume v: "Method r = ''POST''" "decodeGenerateRequest env (Body r) = Some greq" "Prompt greq \<noteq> []"
  show "fst (HandleGenerate env h w r) =
        (let request = LLMRequestJSON
               \<lparr>LLM_Prompt = Prompt greq,
                MaxLength = (if MaxTokens greq = 0 then 150 else MaxTokens greq),
                LLM_Temperature = (if Temperature greq = 0 then 0.7 else Temperature greq),
                TopP = 0, DoSample = True\<rparr>;
             url = llmBaseURL (aiService h) @ ''/generate''
         in if marshalError env request \<noteq> None \<or> newRequestError env ''POST'' url \<noteq> None
            then [] else [\<lparr>callMethod = ''POST'', callURL = url,
                    callHeader = [''Content-Type'' \<mapsto> [''application/json'']],
                    callBody = Some request\<rparr>])"
    unfolding HandleGenerate_calls [OF v] GetGenerate_calls [OF v(3)] callLLMEndpoint_calls
      postJSON_record Let_def
    by (cases "MaxTokens greq = 0"; cases "Temperature greq = 0"; simp)
next
  assume v: "Method r = ''POST''" "decodeCompleteRequest env (Body r) = Some creq" "Prompt creq \<noteq> []"
  show "fst (HandleComplete env h w r) =
        (let request = LLMRequestJSON
               \<lparr>LLM_Prompt = Prompt creq,
                MaxLength = (if MaxTokens creq = 0 then 150 else MaxTokens creq),
                LLM_Temperature = (if Temperature creq = 0 then 0.7 else Temperature creq),
                TopP = 0, DoSample = True\<rparr>;
             url = llmBaseURL (aiService h) @ ''/complete''
         in if marshalError env request \<noteq> None \<or> newRequestError env ''POST'' url \<noteq> None
            then [] else [\<lparr>callMethod = ''POST'', callURL = url,
                    callHeader = [''Content-Type'' \<mapsto> [''application/json'']],
                    callBody = Some request\<rparr>])"
    unfolding HandleComplete_calls [OF v] GetComplete_calls [OF v(3)] postJSON_record Let_def
    by (cases "MaxTokens creq = 0"; cases "Temperature creq = 0"; simp)
next
  assume v: "Method r = ''POST''" "decodeChatCompletionRequest env (Body r) = Some chreq"
    "Messages chreq \<noteq> []"
  show "fst (HandleChatCompletion env h w r) =
        (let request = ChatRequestJSON
               \<lparr>chat_messages = Messages chreq,
                chat_max_tokens = (if MaxTokens chreq = 0 then 150 else MaxTokens chreq),
                chat_temperature = (if Temperature chreq = 0 then 0.7 else Temperature chreq)\<rparr>;
             url = llmBaseURL (aiService h) @ ''/chat/completions''
         in if marshalError env request \<noteq> None \<or> newRequestError env ''POST'' url \<noteq> None
            then [] else [\<lparr>callMethod = ''POST'', callURL = url,
                    callHeader = [''Content-Type'' \<mapsto> [''application/json'']],
                    callBody = Some request\<rparr>])"
    unfolding HandleChatCompletion_calls [OF v] GetChatCompletion_calls [OF v(3)]
      callLLMEndpointWithJSON_calls postJSON_record Let_def
    by (rule refl)
qed


theorem default_parameters_injected_witness:
  "fst (HandleGenerate (stubEnv 0 0 unavailable) NewAIHandler newResponseWriter
          (peerRequest ''POST'' ''/ai/generate'' ''10.0.0.1:5000'')) =
     [\<lparr>callMethod = ''POST'', callURL = ''http://llm-server:8082/generate'',
       callHeader = [''Content-Type'' \<mapsto> [''application/json'']],
       callBody = Some (LLMRequestJSON
         \<lparr>LLM_Prompt = ''hello'', MaxLength = 150, LLM_Temperature = 0.7,
          TopP = 0, DoSample = True\<rparr>)\<rparr>] \<and>
   fst (HandleComplete (stubEnv 64 0 unavailable) NewAIHandler newResponseWriter
          (peerRequest ''POST'' ''/ai/complete'' ''10.0.0.1:5000'')) =
     [\<lparr>callMethod = ''POST'', callURL = ''http://llm-server:8082/complete'',
       callHeader = [''Content-Type'' \<mapsto> [''application/json'']],
       callBody = Some (LLMRequestJSON
         \<lparr>LLM_Prompt = ''hello'', MaxLength = 64, LLM_Temperature = 0.7,
          TopP = 0, DoSample = True\<rparr>)\<rparr>] \<and>
   fst (HandleChatCompletion (stubEnv 0 0.2 unavailable) NewAIHandler newResponseWriter
          (peerRequest ''POST'' ''/ai/chat/completions'' ''10.0.0.1:5000'')) =
     [\<lparr>callMethod = ''POST'', callURL = ''http://llm-server:8082/chat/completions'',
       callHeader = [''Content-Type'' \<mapsto> [''application/json'']],
       callBody = Some (ChatRequestJSON
         \<lparr>chat_messages = [\<lparr>Role = ''user'', Content = ''hello''\<rparr>],
          chat_max_tokens = 150, chat_temperature = 0.2\<rparr>)\<rparr>]"
  using default_parameters_injected
      [of "peerRequest ''POST'' ''/ai/generate'' ''10.0.0.1:5000''" "stubEnv 0 0 unavailable"
          "\<lparr>MaxTokens = 0, Temperature = 0, UserID = ''u1'', Prompt = ''hello''\<rparr>"
          NewAIHandler newResponseWriter]
    default_parameters_injected
      [of "peerRequest ''POST'' ''/ai/complete'' ''10.0.0.1:5000''" "stubEnv 64 0 unavailable"
          _ NewAIHandler newResponseWriter
          "\<lparr>MaxTokens = 64, Temperature = 0, UserID = ''u1'', Prompt = ''hello''\<rparr>"]
    default_parameters_injected
      [of "peerRequest ''POST'' ''/ai/chat/completions'' ''10.0.0.1:5000''" "stubEnv 0 0.2 unavailable"
          _ NewAIHandler newResponseWriter _
          "\<lparr>MaxTokens = 0, Temperature = 0.2, UserID = ''u1'',
            Messages = [\<lparr>Role = ''user'', Content = ''hello''\<rparr>]\<rparr>"]
  by (simp add: peerRequest_def stubEnv_def NewAIHandler_def NewAIService_def)





lemma post_routes_reject_other_methods:
  assumes "Method r \<noteq> ''POST''"
  shows "HandleChatCompletion env h w r = ([], sendErrorResponse w 405 ''Method not allowed'')"
    and "HandleComplete env h w r = ([], sendErrorResponse w 405 ''Method not allowed'')"
    and "HandleGenerate env h w r = ([], sendErrorResponse w 405 ''Method not allowed'')"
  using assms by (simp_all add: HandleChatCompletion_def HandleComplete_def HandleGenerate_def)

lemma HandleHealth_any_method:
  "HandleHealth env h w (r\<lparr>Method := m\<rparr>) = HandleHealth env h w r"
  by (simp add: HandleHealth_def)

lemma HandleModelInfo_any_method:
  "HandleModelInfo env h w (r\<lparr>Method := m\<rparr>) = HandleModelInfo env h w r"
  by (simp add: HandleModelInfo_def)

text \<open>
  Claim C9.  \<^verbatim>\<open>HandleHealth\<close> and \<^verbatim>\<open>HandleModelInfo\<close> do not look at the request
  method: a \<^verbatim>\<open>POST /health\<close> is answered with status 200, and a
  \<^verbatim>\<open>DELETE /ai/model-info\<close> sends the backend its \<^verbatim>\<open>GET /model-info\<close>.
\<close>

theorem get_routes_accept_any_method:
  "wStatus (snd (HandleHealth env h newResponseWriter (peerRequest ''POST'' ''/health'' ''10.0.0.1:5000''))) = Some 200 \<and>
   fst (HandleModelInfo (stubEnv 0 0 unavailable) NewAIHandler newResponseWriter
          (peerRequest ''DELETE'' ''/ai/model-info'' ''10.0.0.1:5000'')) =
     [\<lparr>callMethod = ''GET'', callURL = ''http://llm-server:8082/model-info'', callHeader = Map.empty,
       callBody = None\<rparr>]"
  by (simp add: HandleHealth_def HandleModelInfo_def GetModelInfo_def Let_def wStatus_Write
      wStatus_WriteHeader newResponseWriter_def stubEnv_def unavailable_def NewAIHandler_def
      NewAIService_def)


end
